theory Spec2Isabelle
  imports Complex_Main
begin

section \<open>Language codes (lang_map.py)\<close>

text \<open>
  The table of lang_map.py, in the order of the dict literal. The literal repeats the key
  \<open>heb\<close> with the same value; \<open>map_of\<close> reads the first entry, Python keeps the last,
  and both are \<open>he\<close>.
\<close>

definition LANG_MAP :: "(string \<times> string) list" where
  "LANG_MAP =
    [(''eng'', ''en''), (''kor'', ''korean''), (''chi_sim'', ''ch''),
     (''chi_tra'', ''chinese_cht''), (''jpn'', ''japan''), (''deu'', ''german''),
     (''fra'', ''french''), (''spa'', ''es''), (''por'', ''pt''), (''ita'', ''it''),
     (''rus'', ''ru''), (''ara'', ''ar''), (''hin'', ''hi''), (''vie'', ''vi''),
     (''tha'', ''th''), (''tur'', ''tr''), (''ukr'', ''uk''), (''pol'', ''pl''),
     (''nld'', ''nl''), (''nor'', ''no''), (''swe'', ''sv''), (''dan'', ''da''),
     (''fin'', ''fi''), (''hun'', ''hu''), (''ces'', ''cs''), (''ron'', ''ro''),
     (''bul'', ''bg''), (''hrv'', ''hr''), (''slk'', ''sk''), (''slv'', ''sl''),
     (''ell'', ''el''), (''heb'', ''he''), (''heb'', ''he''), (''ind'', ''id''),
     (''msa'', ''ms''), (''tam'', ''ta''), (''tel'', ''te''), (''kan'', ''ka''),
     (''mar'', ''mr''), (''nep'', ''ne''), (''ben'', ''bn''), (''urd'', ''ur''),
     (''fas'', ''fa''), (''mya'', ''my''), (''khm'', ''km''), (''lao'', ''lo''),
     (''lat'', ''la''), (''est'', ''et''), (''lav'', ''lv''), (''lit'', ''lt'')]"

definition tesseract_to_paddle :: "string \<Rightarrow> string" where
  "tesseract_to_paddle lang = (case map_of LANG_MAP lang of Some p \<Rightarrow> p | None \<Rightarrow> lang)"

section \<open>Data model\<close>

text \<open>
  Python exceptions, by the kind the handlers of engine.py tell apart. A kind stands for
  the class and its subclasses, as an \<open>except\<close> clause does.
\<close>

datatype exn = KeyError | RuntimeError | IndexError | ValueError | ImportError | OtherError

text \<open>
  Coordinates and scores are Python floats. They are modelled as real numbers: the
  comparisons, \<open>min\<close> and \<open>max\<close> of the code are exact on finite floats, and NaN
  and the rounding of float arithmetic are outside the model.
\<close>

type_synonym point = "real \<times> real"

text \<open>A quad is the 4-point sequence the docstring of \<open>_quad_to_bbox\<close> names.\<close>

type_synonym quad = "point \<times> point \<times> point \<times> point"

text \<open>A line box is the array \<open>[x1, y1, x2, y2]\<close>.\<close>

type_synonym box = "real \<times> real \<times> real \<times> real"

type_synonym poly = "point list"

record bounding_box =
  left :: real
  top_f :: real
  right :: real
  bottom :: real

datatype ocr_class = PAGE | LINE | WORD

datatype ocr_element = OcrElement
  (ocr_class: ocr_class)
  (bbox: bounding_box)
  (text_f: "string option")
  (confidence: "real option")
  (dpi: "real option")
  (page_number: "nat option")
  (children: "ocr_element list")

record ocr_options =
  languages :: "string list"

text \<open>
  One element of the list \<open>engine.predict\<close> returns: a dict. A key the code reads is a
  field, \<open>None\<close> when the dict lacks it; \<open>other_keys\<close> counts the keys the code does
  not read, which only matter for the truth value of the dict.
\<close>

record ocr_result =
  rec_texts :: "string list option"
  rec_scores :: "real list option"
  rec_boxes :: "box list option"
  text_word :: "string list list option"
  text_word_region :: "quad list list option"
  dt_polys :: "poly list option"
  other_keys :: nat

definition dict_empty :: "ocr_result \<Rightarrow> bool" where
  "dict_empty d \<longleftrightarrow>
     rec_texts d = None \<and> rec_scores d = None \<and> rec_boxes d = None \<and> text_word d = None \<and>
     text_word_region d = None \<and> dt_polys d = None \<and> other_keys d = 0"

text \<open>\<open>d.get(key, [])\<close>\<close>

definition get_or_empty :: "'a list option \<Rightarrow> 'a list" where
  "get_or_empty v = (case v of None \<Rightarrow> [] | Some xs \<Rightarrow> xs)"

record engine =
  engine_id :: nat
  engine_lang :: string
  use_doc_orientation_classify :: bool
  use_doc_unwarping :: bool
  use_textline_orientation :: bool

text \<open>
  What the process does to the outside, in order: a call of the PaddleOCR constructor, a
  call of \<open>predict\<close> on an engine (with the value of \<open>return_word_box\<close>), a debug
  log line.
\<close>

datatype event = EvConstruct string | EvPredict nat bool | EvLogDebug

fun is_construct :: "event \<Rightarrow> bool" where
  "is_construct (EvConstruct _) = True"
| "is_construct _ = False"

fun is_predict :: "event \<Rightarrow> bool" where
  "is_predict (EvPredict _ _) = True"
| "is_predict _ = False"

text \<open>
  The process state engine.py reads and writes: the two module globals, the process
  environment and the trace of outside effects.
\<close>

record world =
  paddle_engine :: "engine option"
  paddle_lang :: "string option"
  environ :: "string \<rightharpoonup> string"
  events :: "event list"

definition n_constructed :: "world \<Rightarrow> nat" where
  "n_constructed w = length (filter is_construct (events w))"

definition n_predicted :: "world \<Rightarrow> nat" where
  "n_predicted w = length (filter is_predict (events w))"

text \<open>
  The PaddleOCR library is not part of the repository; its behaviour is a parameter.
  \<open>construct k lang env\<close> is the outcome of the \<open>k\<close>-th constructor call of the process
  (import of the library included), run under the environment \<open>env\<close>: \<open>None\<close> when it
  returns, an exception otherwise. \<open>predict k e wb\<close> is the outcome of the \<open>k\<close>-th
  \<open>predict\<close> call of the process, on engine \<open>e\<close> with \<open>return_word_box = wb\<close>.
\<close>

record external =
  construct :: "nat \<Rightarrow> string \<Rightarrow> (string \<rightharpoonup> string) \<Rightarrow> exn option"
  predict :: "nat \<Rightarrow> engine \<Rightarrow> bool \<Rightarrow> exn + ocr_result list"

section \<open>Engine cache (engine.py, lines 25 to 68)\<close>

text \<open>Lines 36 to 41: the engine the \<open>k\<close>-th constructor call builds for \<open>lang\<close>.\<close>

definition new_engine :: "nat \<Rightarrow> string \<Rightarrow> engine" where
  "new_engine k lang =
     \<lparr>engine_id = k, engine_lang = lang, use_doc_orientation_classify = False,
      use_doc_unwarping = False, use_textline_orientation = True\<rparr>"

definition create_paddle_engine :: "external \<Rightarrow> string \<Rightarrow> world \<Rightarrow> (exn + engine) \<times> world" where
  "create_paddle_engine ext lang w =
    (let saved = environ w ''OMP_THREAD_LIMIT'';
         w1 = w\<lparr>environ := (environ w)(''OMP_THREAD_LIMIT'' := None)\<rparr>;
         k = n_constructed w1;
         w2 = w1\<lparr>events := events w1 @ [EvConstruct lang]\<rparr>
     in case construct ext k lang (environ w2) of
          Some e \<Rightarrow> (Inl e, w2)
        | None \<Rightarrow>
            (Inr (new_engine k lang),
             case saved of
               None \<Rightarrow> w2
             | Some v \<Rightarrow> w2\<lparr>environ := (environ w2)(''OMP_THREAD_LIMIT'' \<mapsto> v)\<rparr>))"

text \<open>Line 53: the language the options select.\<close>

definition options_lang :: "ocr_options \<Rightarrow> string" where
  "options_lang options =
     (case languages options of [] \<Rightarrow> ''en'' | l # _ \<Rightarrow> tesseract_to_paddle l)"

definition get_paddle_engine :: "external \<Rightarrow> ocr_options \<Rightarrow> world \<Rightarrow> (exn + engine) \<times> world" where
  "get_paddle_engine ext options w =
    (let lang = options_lang options;
         rebuild = (case create_paddle_engine ext lang w of
                      (Inl e, w') \<Rightarrow> (Inl e, w')
                    | (Inr eng, w') \<Rightarrow>
                        (Inr eng, w'\<lparr>paddle_engine := Some eng, paddle_lang := Some lang\<rparr>))
     in case paddle_engine w of
          None \<Rightarrow> rebuild
        | Some cached \<Rightarrow> if paddle_lang w = Some lang then (Inr cached, w) else rebuild)"

definition reset_paddle_engine :: "world \<Rightarrow> world" where
  "reset_paddle_engine w = w\<lparr>paddle_engine := None, paddle_lang := None\<rparr>"

definition call_predict :: "external \<Rightarrow> engine \<Rightarrow> bool \<Rightarrow> world \<Rightarrow> (exn + ocr_result list) \<times> world" where
  "call_predict ext eng wb w =
     (predict ext (n_predicted w) eng wb, w\<lparr>events := events w @ [EvPredict (engine_id eng) wb]\<rparr>)"

section \<open>Geometry (engine.py, lines 71 to 79)\<close>

definition quad_to_bbox :: "quad \<Rightarrow> bounding_box option" where
  "quad_to_bbox q =
    (case q of (p1, p2, p3, p4) \<Rightarrow>
      let xs = map fst [p1, p2, p3, p4];
          ys = map snd [p1, p2, p3, p4];
          l = Min (set xs); r = Max (set xs);
          t = Min (set ys); b = Max (set ys)
      in if r \<le> l \<or> b \<le> t then None
         else Some \<lparr>left = l, top_f = t, right = r, bottom = b\<rparr>)"

section \<open>Strings\<close>

text \<open>
  Python strings are sequences of code points; the model has the code points below 256.
  \<open>is_space\<close> is \<open>str.isspace\<close> on them, and \<open>strip\<close> is \<open>str.strip()\<close>.
\<close>

definition is_space :: "char \<Rightarrow> bool" where
  "is_space c \<longleftrightarrow> (of_char c :: nat) \<in> {9, 10, 11, 12, 13, 28, 29, 30, 31, 32, 133, 160}"

definition strip :: "string \<Rightarrow> string" where
  "strip s = rev (dropWhile is_space (rev (dropWhile is_space s)))"

text \<open>\<open>sep.join(parts)\<close>\<close>

fun str_join :: "string \<Rightarrow> string list \<Rightarrow> string" where
  "str_join sep [] = []"
| "str_join sep [x] = x"
| "str_join sep (x # y # ys) = x @ sep @ str_join sep (y # ys)"

section \<open>Page assembly (engine.py, generate_ocr, lines 158 to 249)\<close>

text \<open>What the code reads of the opened image: its size and the \<open>dpi\<close> entry of its info.\<close>

datatype dpi_info = DpiTuple real real | DpiValue real

record image =
  img_width :: nat
  img_height :: nat
  img_dpi :: "dpi_info option"

text \<open>Lines 227 to 232 and 236 to 241: a WORD element.\<close>

definition word_element :: "bounding_box \<Rightarrow> string \<Rightarrow> real \<Rightarrow> ocr_element" where
  "word_element b t score = OcrElement WORD b (Some t) (Some score) None None []"

text \<open>Lines 220 to 233: the loop over the tokens and quads of one line.\<close>

fun generate_ocr_words :: "real \<Rightarrow> (string \<times> quad) list \<Rightarrow> ocr_element list \<Rightarrow> ocr_element list" where
  "generate_ocr_words score [] line_children = line_children"
| "generate_ocr_words score ((token, quad) # rest) line_children =
     (let token' = strip token in
      if token' = [] then generate_ocr_words score rest line_children
      else case quad_to_bbox quad of
             None \<Rightarrow> generate_ocr_words score rest line_children
           | Some word_bbox \<Rightarrow>
               generate_ocr_words score rest (line_children @ [word_element word_bbox token' score]))"

text \<open>
  Lines 218 to 242: the WORD children of line \<open>i\<close>. \<open>text_word_regions[i]\<close> raises
  IndexError when \<open>i\<close> is not an index of the list.
\<close>

definition generate_ocr_children ::
  "bool \<Rightarrow> string list list \<Rightarrow> quad list list \<Rightarrow> nat \<Rightarrow> bounding_box \<Rightarrow> string \<Rightarrow> real
     \<Rightarrow> exn + ocr_element list" where
  "generate_ocr_children has_word_boxes text_words text_word_regions i line_bbox txt score =
     (if has_word_boxes \<and> i < length text_words \<and> text_words ! i \<noteq> [] then
        (if i < length text_word_regions
         then Inr (generate_ocr_words score (zip (text_words ! i) (text_word_regions ! i)) [])
         else Inl IndexError)
      else Inr [word_element line_bbox txt score])"

text \<open>
  Lines 208 to 246: the body of the loop over the lines. The value is \<open>None\<close> when the
  line is skipped, and the LINE element when it is attached to the page (its text is then
  appended to \<open>text_parts\<close>).
\<close>

definition generate_ocr_line ::
  "bool \<Rightarrow> string list list \<Rightarrow> quad list list \<Rightarrow> nat \<Rightarrow> string \<times> real \<times> box
     \<Rightarrow> exn + ocr_element option" where
  "generate_ocr_line has_word_boxes text_words text_word_regions i row =
     (case row of (txt, score, (x1, y1, x2, y2)) \<Rightarrow>
        if strip txt = [] then Inr None
        else if x2 \<le> x1 \<or> y2 \<le> y1 then Inr None
        else
          let line_bbox = \<lparr>left = x1, top_f = y1, right = x2, bottom = y2\<rparr> in
          case generate_ocr_children has_word_boxes text_words text_word_regions i line_bbox txt score of
            Inl e \<Rightarrow> Inl e
          | Inr line_children \<Rightarrow>
              if line_children \<noteq> []
              then Inr (Some (OcrElement LINE line_bbox None None None None line_children))
              else Inr None)"

text \<open>
  Lines 207 to 246: the loop, over the zipped rows from index \<open>i\<close> on, with the children
  of the page and \<open>text_parts\<close> as accumulators.
\<close>

fun generate_ocr_lines ::
  "bool \<Rightarrow> string list list \<Rightarrow> quad list list \<Rightarrow> nat \<Rightarrow> (string \<times> real \<times> box) list
     \<Rightarrow> ocr_element list \<Rightarrow> string list \<Rightarrow> exn + ocr_element list \<times> string list" where
  "generate_ocr_lines hwb tw twr i [] page_children text_parts = Inr (page_children, text_parts)"
| "generate_ocr_lines hwb tw twr i (row # rows) page_children text_parts =
     (case generate_ocr_line hwb tw twr i row of
        Inl e \<Rightarrow> Inl e
      | Inr None \<Rightarrow> generate_ocr_lines hwb tw twr (Suc i) rows page_children text_parts
      | Inr (Some line) \<Rightarrow>
          generate_ocr_lines hwb tw twr (Suc i) rows (page_children @ [line]) (text_parts @ [fst row]))"

text \<open>Lines 166 to 176: the PAGE element, without children.\<close>

definition page_element :: "image \<Rightarrow> nat \<Rightarrow> ocr_element list \<Rightarrow> ocr_element" where
  "page_element img pn cs =
     OcrElement PAGE
       \<lparr>left = 0, top_f = 0, right = real (img_width img), bottom = real (img_height img)\<rparr>
       None None
       (Some (case img_dpi img of
                None \<Rightarrow> 300
              | Some (DpiTuple x y) \<Rightarrow> x
              | Some (DpiValue x) \<Rightarrow> x))
       (Some pn) cs"

text \<open>Lines 191 to 249: from the result of \<open>predict\<close> to the page and its text.\<close>

definition generate_ocr_tree :: "image \<Rightarrow> nat \<Rightarrow> ocr_result list \<Rightarrow> exn + ocr_element \<times> string" where
  "generate_ocr_tree img pn result =
     (case result of
        [] \<Rightarrow> Inr (page_element img pn [], [])
      | ocr_data # _ \<Rightarrow>
          if dict_empty ocr_data then Inr (page_element img pn [], [])
          else
            let texts = get_or_empty (rec_texts ocr_data);
                scores = get_or_empty (rec_scores ocr_data);
                boxes = get_or_empty (rec_boxes ocr_data);
                text_words = get_or_empty (text_word ocr_data);
                text_word_regions = get_or_empty (text_word_region ocr_data)
            in if texts = [] then Inr (page_element img pn [], [])
               else
                 let has_word_boxes = (text_words \<noteq> [] \<and> text_word_regions \<noteq> []) in
                 case generate_ocr_lines has_word_boxes text_words text_word_regions 0
                        (zip texts (zip scores boxes)) [] [] of
                   Inl e \<Rightarrow> Inl e
                 | Inr (page_children, text_parts) \<Rightarrow>
                     Inr (page_element img pn page_children, str_join [CHR 0x0A] text_parts))"

text \<open>Lines 178 to 189: the call of \<open>predict\<close> and its two handlers.\<close>

definition generate_ocr_predict ::
  "external \<Rightarrow> ocr_options \<Rightarrow> engine \<Rightarrow> world \<Rightarrow> (exn + ocr_result list) \<times> world" where
  "generate_ocr_predict ext options eng w =
     (case call_predict ext eng True w of
        (Inr result, w1) \<Rightarrow> (Inr result, w1)
      | (Inl e, w1) \<Rightarrow>
          if e = KeyError then call_predict ext eng False w1
          else if e = RuntimeError then
            (let w2 = w1\<lparr>events := events w1 @ [EvLogDebug]\<rparr>;
                 w3 = reset_paddle_engine w2
             in case get_paddle_engine ext options w3 of
                  (Inl e', w4) \<Rightarrow> (Inl e', w4)
                | (Inr eng', w4) \<Rightarrow> call_predict ext eng' True w4)
          else (Inl e, w1))"

definition generate_ocr ::
  "external \<Rightarrow> image \<Rightarrow> ocr_options \<Rightarrow> nat \<Rightarrow> world \<Rightarrow> (exn + ocr_element \<times> string) \<times> world" where
  "generate_ocr ext img options pn w =
     (case get_paddle_engine ext options w of
        (Inl e, w1) \<Rightarrow> (Inl e, w1)
      | (Inr eng, w1) \<Rightarrow>
          (case generate_ocr_predict ext options eng w1 of
             (Inl e, w2) \<Rightarrow> (Inl e, w2)
           | (Inr result, w2) \<Rightarrow> (generate_ocr_tree img pn result, w2)))"

section \<open>Orientation (engine.py, get_orientation, lines 102 to 118)\<close>

text \<open>
  \<open>int(s)\<close> on a string: surrounding whitespace is dropped, one sign is allowed, and the
  digits may be separated by single underscores. Anything else raises ValueError.
\<close>

definition is_digit :: "char \<Rightarrow> bool" where
  "is_digit c \<longleftrightarrow> 48 \<le> (of_char c :: nat) \<and> (of_char c :: nat) \<le> 57"

fun parse_digits :: "nat \<Rightarrow> bool \<Rightarrow> string \<Rightarrow> nat option" where
  "parse_digits acc after_digit [] = (if after_digit then Some acc else None)"
| "parse_digits acc after_digit (c # cs) =
     (if is_digit c then parse_digits (acc * 10 + (of_char c - 48)) True cs
      else if c = CHR ''_'' \<and> after_digit then parse_digits acc False cs
      else None)"

definition py_int :: "string \<Rightarrow> exn + int" where
  "py_int s =
     (let t = strip s;
          (sgn_f, body) = (case t of
                             [] \<Rightarrow> (1, [])
                           | c # cs \<Rightarrow> if c = CHR ''-'' then (- 1, cs)
                                       else if c = CHR ''+'' then (1, cs)
                                       else (1, t))
      in case parse_digits 0 False body of
           None \<Rightarrow> Inl ValueError
         | Some n \<Rightarrow> Inr (sgn_f * int n))"

text \<open>One element of the list the orientation classifier returns.\<close>

record clf_result =
  label_names :: "string list"
  scores :: "real list"

record orientation_confidence =
  angle :: int
  oc_confidence :: real

text \<open>
  The classifier is not part of the repository: \<open>clf\<close> gives, for an input file, the
  outcome of building the classifier and calling its \<open>predict\<close>.
\<close>

definition get_orientation :: "('f \<Rightarrow> exn + clf_result list) \<Rightarrow> 'f \<Rightarrow> exn + orientation_confidence" where
  "get_orientation clf input_file =
     (case clf input_file of
        Inl e \<Rightarrow> Inl e
      | Inr [] \<Rightarrow> Inr \<lparr>angle = 0, oc_confidence = 0\<rparr>
      | Inr (r # _) \<Rightarrow>
          (case label_names r of
             [] \<Rightarrow> Inl IndexError
           | l # _ \<Rightarrow>
               (case py_int l of
                  Inl e \<Rightarrow> Inl e
                | Inr a \<Rightarrow>
                    (case scores r of
                       [] \<Rightarrow> Inl IndexError
                     | score # _ \<Rightarrow> Inr \<lparr>angle = a, oc_confidence = score * 15\<rparr>))))"

section \<open>Skew (engine.py, get_deskew, lines 120 to 151)\<close>

text \<open>
  \<open>math.atan2\<close> and \<open>math.degrees\<close> are library functions; they are modelled by the
  mathematical functions they approximate.
\<close>

definition atan2 :: "real \<Rightarrow> real \<Rightarrow> real" where
  "atan2 y x =
     (if 0 < x then arctan (y / x)
      else if x < 0 then (if 0 \<le> y then arctan (y / x) + pi else arctan (y / x) - pi)
      else if 0 < y then pi / 2
      else if y < 0 then - pi / 2
      else 0)"

definition degrees :: "real \<Rightarrow> real" where
  "degrees x = x * 180 / pi"

text \<open>Lines 132 to 141: the loop collecting the angles of the top edges.\<close>

fun get_deskew_angles :: "poly list \<Rightarrow> real list \<Rightarrow> real list" where
  "get_deskew_angles [] angles = angles"
| "get_deskew_angles (p # ps) angles =
     (case p of
        p0 # p1 # _ \<Rightarrow>
          (let dx = fst p1 - fst p0;
               dy = snd p1 - snd p0
           in if \<bar>dx\<bar> < 1 then get_deskew_angles ps angles
              else get_deskew_angles ps (angles @ [degrees (atan2 dy dx)]))
      | _ \<Rightarrow> get_deskew_angles ps angles)"

text \<open>Lines 124 to 151: from the result of \<open>predict\<close> to the angle.\<close>

definition get_deskew_angle :: "ocr_result list \<Rightarrow> real" where
  "get_deskew_angle result =
     (case result of
        [] \<Rightarrow> 0
      | r # _ \<Rightarrow>
          if dict_empty r then 0
          else
            let polys = get_or_empty (dt_polys r) in
            if polys = [] then 0
            else
              let angles = get_deskew_angles polys [] in
              if angles = [] then 0
              else
                let sorted_angles = sort angles;
                    mid = length sorted_angles div 2
                in if length sorted_angles mod 2 = 0
                   then (sorted_angles ! (mid - 1) + sorted_angles ! mid) / 2
                   else sorted_angles ! mid)"

definition get_deskew :: "external \<Rightarrow> ocr_options \<Rightarrow> world \<Rightarrow> (exn + real) \<times> world" where
  "get_deskew ext options w =
     (case get_paddle_engine ext options w of
        (Inl e, w1) \<Rightarrow> (Inl e, w1)
      | (Inr eng, w1) \<Rightarrow>
          (case call_predict ext eng False w1 of
             (Inl e, w2) \<Rightarrow> (Inl e, w2)
           | (Inr result, w2) \<Rightarrow> (Inr (get_deskew_angle result), w2)))"

section \<open>Concrete collaborators and states for the examples\<close>

text \<open>
  A scripted library: the \<open>k\<close>-th constructor call has the outcome \<open>cs ! k\<close> and the
  \<open>k\<close>-th \<open>predict\<close> call the outcome \<open>ps ! k\<close>; calls beyond the script succeed,
  \<open>predict\<close> with an empty result.
\<close>

definition ext_of :: "exn option list \<Rightarrow> (exn + ocr_result list) list \<Rightarrow> external" where
  "ext_of cs ps =
     \<lparr>construct = (\<lambda>k lang env. if k < length cs then cs ! k else None),
      predict = (\<lambda>k e wb. if k < length ps then ps ! k else Inr [])\<rparr>"

definition empty_world :: world where
  "empty_world = \<lparr>paddle_engine = None, paddle_lang = None, environ = Map.empty, events = []\<rparr>"

text \<open>The state a sibling Tesseract plugin leaves: the thread limit set to 1.\<close>

definition tesseract_world :: world where
  "tesseract_world = empty_world\<lparr>environ := [''OMP_THREAD_LIMIT'' \<mapsto> ''1'']\<rparr>"

text \<open>The engine and the state after the first acquisition for English, from the empty state.\<close>

definition engine_en :: engine where
  "engine_en = new_engine 0 ''en''"

definition world_en :: world where
  "world_en = empty_world\<lparr>paddle_engine := Some engine_en, paddle_lang := Some ''en'',
                           events := [EvConstruct ''en'']\<rparr>"

text \<open>A blank page image of 612 by 792 pixels at 300 dpi.\<close>

definition blank_image :: image where
  "blank_image = \<lparr>img_width = 612, img_height = 792, img_dpi = Some (DpiTuple 300 300)\<rparr>"

section \<open>The attached lines, as the specification describes them\<close>

text \<open>Line 215: the bounding box of a line box.\<close>

fun box_bbox :: "box \<Rightarrow> bounding_box" where
  "box_bbox (x1, y1, x2, y2) = \<lparr>left = x1, top_f = y1, right = x2, bottom = y2\<rparr>"

text \<open>
  The condition of the specification for the line of row \<open>i\<close> to be attached: its text
  is not blank, its box is not degenerate, and it ended up with at least one WORD child.
\<close>

fun line_attached ::
  "bool \<Rightarrow> string list list \<Rightarrow> quad list list \<Rightarrow> nat \<times> string \<times> real \<times> box \<Rightarrow> bool" where
  "line_attached hwb tw twr (i, txt, score, (x1, y1, x2, y2)) \<longleftrightarrow>
     strip txt \<noteq> [] \<and> x1 < x2 \<and> y1 < y2 \<and>
     (case generate_ocr_children hwb tw twr i (box_bbox (x1, y1, x2, y2)) txt score of
        Inl e \<Rightarrow> False
      | Inr ws \<Rightarrow> ws \<noteq> [])"

text \<open>The LINE element of row \<open>i\<close>: the line box and the WORD children.\<close>

fun line_element ::
  "bool \<Rightarrow> string list list \<Rightarrow> quad list list \<Rightarrow> nat \<times> string \<times> real \<times> box \<Rightarrow> ocr_element" where
  "line_element hwb tw twr (i, txt, score, b) =
     OcrElement LINE (box_bbox b) None None None None
       (case generate_ocr_children hwb tw twr i (box_bbox b) txt score of
          Inl e \<Rightarrow> []
        | Inr ws \<Rightarrow> ws)"

text \<open>Line 207: the rows the loop enumerates, each with its index.\<close>

definition result_rows :: "ocr_result \<Rightarrow> (nat \<times> string \<times> real \<times> box) list" where
  "result_rows d =
     List.enumerate 0 (zip (get_or_empty (rec_texts d))
                         (zip (get_or_empty (rec_scores d)) (get_or_empty (rec_boxes d))))"

text \<open>Line 204: word-level detail is present.\<close>

definition result_has_word_boxes :: "ocr_result \<Rightarrow> bool" where
  "result_has_word_boxes d \<longleftrightarrow>
     get_or_empty (text_word d) \<noteq> [] \<and> get_or_empty (text_word_region d) \<noteq> []"

definition result_attached :: "ocr_result \<Rightarrow> (nat \<times> string \<times> real \<times> box) list" where
  "result_attached d =
     filter (line_attached (result_has_word_boxes d) (get_or_empty (text_word d))
               (get_or_empty (text_word_region d)))
       (result_rows d)"

section \<open>Concrete engine results for the examples\<close>

text \<open>
  Four lines without word-level detail: the second is blank and the fourth has a box of
  width 0.
\<close>

definition hello_result :: ocr_result where
  "hello_result =
     \<lparr>rec_texts = Some [''Hello World'', ''   '', ''Bye'', ''flat''],
      rec_scores = Some [9 / 10, 1 / 2, 4 / 5, 1],
      rec_boxes = Some [(10, 10, 200, 40), (10, 50, 200, 80), (10, 90, 100, 120), (5, 130, 5, 150)],
      text_word = None, text_word_region = None, dt_polys = None, other_keys = 1\<rparr>"

definition hello_quad :: quad where
  "hello_quad = ((10, 10), (90, 12), (90, 40), (10, 38))"

definition space_quad :: quad where
  "space_quad = ((90, 10), (100, 10), (100, 40), (90, 40))"

definition world_quad :: quad where
  "world_quad = ((100, 10), (200, 10), (200, 40), (100, 40))"

text \<open>
  Two lines with word-level detail. The first has four tokens, one of them blank, and
  three quads; the second has no tokens.
\<close>

definition words_result :: ocr_result where
  "words_result =
     \<lparr>rec_texts = Some [''Hello World'', ''Bye''],
      rec_scores = Some [9 / 10, 4 / 5],
      rec_boxes = Some [(10, 10, 200, 40), (10, 50, 100, 80)],
      text_word = Some [['' Hello'', '' '', ''World '', ''surplus''], []],
      text_word_region = Some [[hello_quad, space_quad, world_quad], []],
      dt_polys = None, other_keys = 1\<rparr>"

definition words_page :: ocr_element where
  "words_page =
     page_element blank_image 0
       [OcrElement LINE \<lparr>left = 10, top_f = 10, right = 200, bottom = 40\<rparr> None None None None
          [word_element \<lparr>left = 10, top_f = 10, right = 90, bottom = 40\<rparr> ''Hello'' (9 / 10),
           word_element \<lparr>left = 100, top_f = 10, right = 200, bottom = 40\<rparr> ''World'' (9 / 10)],
        OcrElement LINE \<lparr>left = 10, top_f = 50, right = 100, bottom = 80\<rparr> None None None None
          [word_element \<lparr>left = 10, top_f = 50, right = 100, bottom = 80\<rparr> ''Bye'' (4 / 5)]]"

text \<open>Two lines with tokens each, and quads for the first line only.\<close>

definition mismatch_result :: ocr_result where
  "mismatch_result =
     \<lparr>rec_texts = Some [''Hello'', ''Bye''],
      rec_scores = Some [9 / 10, 4 / 5],
      rec_boxes = Some [(10, 10, 200, 40), (10, 50, 100, 80)],
      text_word = Some [[''Hello''], [''Bye'']],
      text_word_region = Some [[hello_quad]],
      dt_polys = None, other_keys = 1\<rparr>"

section \<open>The skew estimate, as the specification describes it\<close>

text \<open>
  An edge qualifies when the polygon has at least two vertices and the horizontal span of
  the edge from vertex 0 to vertex 1 is at least 1 pixel.
\<close>

fun edge_qualifies :: "poly \<Rightarrow> bool" where
  "edge_qualifies (p0 # p1 # _) \<longleftrightarrow> 1 \<le> \<bar>fst p1 - fst p0\<bar>"
| "edge_qualifies _ \<longleftrightarrow> False"

text \<open>The angle of the edge from vertex 0 to vertex 1, in degrees.\<close>

fun edge_angle :: "poly \<Rightarrow> real" where
  "edge_angle (p0 # p1 # _) = degrees (atan2 (snd p1 - snd p0) (fst p1 - fst p0))"
| "edge_angle _ = 0"

text \<open>
  The median: the middle value of the sorted list, or the mean of the two middle values
  when the count is even.
\<close>

definition median :: "real list \<Rightarrow> real" where
  "median xs =
     (if even (length xs)
      then (sort xs ! (length xs div 2 - 1) + sort xs ! (length xs div 2)) / 2
      else sort xs ! (length xs div 2))"

text \<open>The angles of the qualifying edges of the detection polygons of a result.\<close>

definition skew_angles :: "ocr_result \<Rightarrow> real list" where
  "skew_angles r = map edge_angle (filter edge_qualifies (get_or_empty (dt_polys r)))"

text \<open>
  Detection polygons for the examples: three horizontal top edges, one at 45 degrees,
  one polygon with a single vertex and one edge of horizontal span one half.
\<close>

definition skew_result :: ocr_result where
  "skew_result =
     \<lparr>rec_texts = None, rec_scores = None, rec_boxes = None, text_word = None,
      text_word_region = None,
      dt_polys = Some [[(0, 0), (10, 0), (10, 5), (0, 5)], [(0, 0), (10, 10), (0, 20)], [(3, 3)],
                       [(0, 0), (1 / 2, 10)], [(0, 50), (40, 50)], [(5, 60), (45, 60)]],
      other_keys = 1\<rparr>"

text \<open>The page expected for \<open>hello_result\<close>.\<close>

definition hello_page :: ocr_element where
  "hello_page =
     page_element blank_image 0
       [OcrElement LINE \<lparr>left = 10, top_f = 10, right = 200, bottom = 40\<rparr> None None None None
          [word_element \<lparr>left = 10, top_f = 10, right = 200, bottom = 40\<rparr> ''Hello World'' (9 / 10)],
        OcrElement LINE \<lparr>left = 10, top_f = 90, right = 100, bottom = 120\<rparr> None None None None
          [word_element \<lparr>left = 10, top_f = 90, right = 100, bottom = 120\<rparr> ''Bye'' (4 / 5)]]"

section \<open>Engine construction and the thread-limit override\<close>

lemma create_paddle_engine_return_restores:
  assumes "create_paddle_engine ext lang w = (Inr eng, w')"
  shows "environ w' = environ w"
  using assms
  by (auto simp: create_paddle_engine_def Let_def split: option.splits)

lemma create_paddle_engine_runs_unlimited:
  "fst (create_paddle_engine ext lang w) = Inl e \<longleftrightarrow>
     construct ext (n_constructed w) lang ((environ w)(''OMP_THREAD_LIMIT'' := None)) = Some e"
  by (auto simp: create_paddle_engine_def n_constructed_def Let_def split: option.splits)

lemma create_paddle_engine_raise_clears:
  assumes "create_paddle_engine ext lang w = (Inl e, w')"
  shows "environ w' = (environ w)(''OMP_THREAD_LIMIT'' := None)"
  using assms
  by (auto simp: create_paddle_engine_def Let_def split: option.splits)

text \<open>
  C1. The claim: the override OMP_THREAD_LIMIT is restored on every exit path of
  \<open>_create_paddle_engine\<close>, also when the constructor raises. The code restores it after
  the constructor call only (\<open>create_paddle_engine_return_restores\<close>), with no handler
  around the call: with the override set to 1 and a constructor that raises RuntimeError,
  the exception leaves the function and the environment no longer holds the override.
\<close>

theorem create_paddle_engine_raise_loses_override:
  "fst (create_paddle_engine (ext_of [Some RuntimeError] []) ''en'' tesseract_world)
     = Inl RuntimeError \<and>
   environ (snd (create_paddle_engine (ext_of [Some RuntimeError] []) ''en'' tesseract_world))
     ''OMP_THREAD_LIMIT'' = None \<and>
   environ tesseract_world ''OMP_THREAD_LIMIT'' = Some ''1''"
  by (simp add: create_paddle_engine_def ext_of_def tesseract_world_def empty_world_def
        n_constructed_def Let_def)

section \<open>Degenerate boxes\<close>

text \<open>
  C6. \<open>_quad_to_bbox\<close> returns \<open>None\<close> exactly when the enclosing axis-aligned box of
  the four points has width or height at most 0, and otherwise returns that box, with
  \<open>left < right\<close> and \<open>top < bottom\<close>. The inline conversion of a line box
  \<open>[x1, y1, x2, y2]\<close> follows the same rule: a box with width or height at most 0 makes
  the loop body skip the line without raising, and an attached line carries the box, with
  \<open>left < right\<close> and \<open>top < bottom\<close>.
\<close>

theorem quad_to_bbox_none_iff_degenerate:
  "(quad_to_bbox (p1, p2, p3, p4) = None \<longleftrightarrow>
      Max {fst p1, fst p2, fst p3, fst p4} - Min {fst p1, fst p2, fst p3, fst p4} \<le> 0 \<or>
      Max {snd p1, snd p2, snd p3, snd p4} - Min {snd p1, snd p2, snd p3, snd p4} \<le> 0) \<and>
   (\<forall>b. quad_to_bbox (p1, p2, p3, p4) = Some b \<longrightarrow>
      left b = Min {fst p1, fst p2, fst p3, fst p4} \<and>
      right b = Max {fst p1, fst p2, fst p3, fst p4} \<and>
      top_f b = Min {snd p1, snd p2, snd p3, snd p4} \<and>
      bottom b = Max {snd p1, snd p2, snd p3, snd p4} \<and>
      left b < right b \<and> top_f b < bottom b) \<and>
   (x2 - x1 \<le> 0 \<or> y2 - y1 \<le> 0 \<longrightarrow>
      generate_ocr_line hwb tw twr i (txt, score, (x1, y1, x2, y2)) = Inr None) \<and>
   (\<forall>line. generate_ocr_line hwb tw twr i (txt, score, (x1, y1, x2, y2)) = Inr (Some line) \<longrightarrow>
      bbox line = \<lparr>left = x1, top_f = y1, right = x2, bottom = y2\<rparr> \<and>
      left (bbox line) < right (bbox line) \<and> top_f (bbox line) < bottom (bbox line))"
proof -
  have quad_none: "quad_to_bbox (p1, p2, p3, p4) = None \<longleftrightarrow>
      Max {fst p1, fst p2, fst p3, fst p4} - Min {fst p1, fst p2, fst p3, fst p4} \<le> 0 \<or>
      Max {snd p1, snd p2, snd p3, snd p4} - Min {snd p1, snd p2, snd p3, snd p4} \<le> 0"
    by (simp add: quad_to_bbox_def Let_def)
  have quad_some: "\<forall>b. quad_to_bbox (p1, p2, p3, p4) = Some b \<longrightarrow>
      left b = Min {fst p1, fst p2, fst p3, fst p4} \<and>
      right b = Max {fst p1, fst p2, fst p3, fst p4} \<and>
      top_f b = Min {snd p1, snd p2, snd p3, snd p4} \<and>
      bottom b = Max {snd p1, snd p2, snd p3, snd p4} \<and>
      left b < right b \<and> top_f b < bottom b"
    by (auto simp: quad_to_bbox_def Let_def split: if_splits)
  have line_skip: "x2 - x1 \<le> 0 \<or> y2 - y1 \<le> 0 \<longrightarrow>
      generate_ocr_line hwb tw twr i (txt, score, (x1, y1, x2, y2)) = Inr None"
    by (auto simp: generate_ocr_line_def)
  have line_some:
    "\<forall>line. generate_ocr_line hwb tw twr i (txt, score, (x1, y1, x2, y2)) = Inr (Some line) \<longrightarrow>
      bbox line = \<lparr>left = x1, top_f = y1, right = x2, bottom = y2\<rparr> \<and>
      left (bbox line) < right (bbox line) \<and> top_f (bbox line) < bottom (bbox line)"
    by (auto simp: generate_ocr_line_def Let_def split: if_splits sum.splits)
  from quad_none quad_some line_skip line_some show ?thesis by blast
qed

theorem quad_to_bbox_none_iff_degenerate_witness:
  "quad_to_bbox ((0, 0), (10, 1), (11, 5), (1, 4))
     = Some \<lparr>left = 0, top_f = 0, right = 11, bottom = 5\<rparr> \<and>
   quad_to_bbox ((0, 0), (10, 0), (10, 0), (0, 0)) = None \<and>
   generate_ocr_line False [] [] 0 (''Hi'', 1, (10, 10, 10, 40)) = Inr None \<and>
   (\<exists>line. generate_ocr_line False [] [] 0 (''Hi'', 1, (10, 10, 200, 40)) = Inr (Some line) \<and>
      left (bbox line) < right (bbox line) \<and> top_f (bbox line) < bottom (bbox line))"
  using quad_to_bbox_none_iff_degenerate
          [of "(0, 0)" "(10, 1)" "(11, 5)" "(1, 4)" 10 10 40 10 False "[]" "[]" 0 "''Hi''" 1]
        quad_to_bbox_none_iff_degenerate
          [of "(0, 0)" "(10, 0)" "(10, 0)" "(0, 0)" 200 10 40 10 False "[]" "[]" 0 "''Hi''" 1]
  by (simp add: quad_to_bbox_def generate_ocr_line_def generate_ocr_children_def word_element_def
        strip_def is_space_def Let_def)

section \<open>Orientation\<close>

lemma py_int_labels:
  "py_int ''0'' = Inr 0" "py_int ''90'' = Inr 90" "py_int ''180'' = Inr 180"
  "py_int ''270'' = Inr 270"
  by (simp_all add: py_int_def strip_def is_space_def is_digit_def)

text \<open>
  C9. When the classifier produces no result, \<open>get_orientation\<close> returns angle 0 and
  confidence 0. Otherwise, for a classifier that keeps its contract (the top label is one
  of the strings 0, 90, 180, 270 and the top score is a probability in [0, 1]), it returns
  the number the top label denotes as the angle, one of 0, 90, 180, 270, and 15 times the
  top score as the confidence, which lies in [0, 15].
\<close>

theorem get_orientation_angle_confidence:
  "(clf f = Inr [] \<longrightarrow> get_orientation clf f = Inr \<lparr>angle = 0, oc_confidence = 0\<rparr>) \<and>
   (clf f = Inr (r # rs) \<and> label_names r = l # ls \<and> l \<in> {''0'', ''90'', ''180'', ''270''} \<and>
    scores r = s # ss \<and> 0 \<le> s \<and> s \<le> 1 \<longrightarrow>
      (\<exists>oc. get_orientation clf f = Inr oc \<and> py_int l = Inr (angle oc) \<and>
            angle oc \<in> {0, 90, 180, 270} \<and> oc_confidence oc = 15 * s \<and>
            0 \<le> oc_confidence oc \<and> oc_confidence oc \<le> 15))"
  by (auto simp: get_orientation_def py_int_labels)

theorem get_orientation_angle_confidence_witness:
  "get_orientation (\<lambda>_::unit. Inr []) () = Inr \<lparr>angle = 0, oc_confidence = 0\<rparr> \<and>
   get_orientation (\<lambda>_::unit. Inr [\<lparr>label_names = [''90'', ''0''], scores = [1 / 2, 1 / 4]\<rparr>]) ()
     = Inr \<lparr>angle = 90, oc_confidence = 15 / 2\<rparr>"
  using get_orientation_angle_confidence [of "\<lambda>_::unit. Inr []" "()"]
        get_orientation_angle_confidence
          [of "\<lambda>_::unit. Inr [\<lparr>label_names = [''90'', ''0''], scores = [1 / 2, 1 / 4]\<rparr>]" "()"
              "\<lparr>label_names = [''90'', ''0''], scores = [1 / 2, 1 / 4]\<rparr>" "[]" "''90''" "[''0'']"
              "1 / 2" "[1 / 4]"]
  by (simp add: get_orientation_def py_int_labels)

section \<open>The engine cache\<close>

lemma options_lang_examples:
  "options_lang \<lparr>languages = [''eng'']\<rparr> = ''en''"
  "options_lang \<lparr>languages = [''kor'', ''eng'']\<rparr> = ''korean''"
  "options_lang \<lparr>languages = []\<rparr> = ''en''"
  "options_lang \<lparr>languages = [''xyz'']\<rparr> = ''xyz''"
  by (simp_all add: options_lang_def tesseract_to_paddle_def LANG_MAP_def)

lemma create_paddle_engine_events:
  "events (snd (create_paddle_engine ext lang w)) = events w @ [EvConstruct lang]"
  by (simp add: create_paddle_engine_def Let_def split: option.splits)

lemma create_paddle_engine_cache:
  "paddle_engine (snd (create_paddle_engine ext lang w)) = paddle_engine w \<and>
   paddle_lang (snd (create_paddle_engine ext lang w)) = paddle_lang w"
  by (simp add: create_paddle_engine_def Let_def split: option.splits)

lemma create_paddle_engine_fields:
  "create_paddle_engine ext lang w = (Inr eng, w') \<Longrightarrow>
     engine_id eng = n_constructed w \<and> engine_lang eng = lang \<and>
     \<not> use_doc_orientation_classify eng \<and> \<not> use_doc_unwarping eng \<and>
     use_textline_orientation eng"
  by (auto simp: create_paddle_engine_def new_engine_def n_constructed_def Let_def
        split: option.splits)

lemma get_paddle_engine_first:
  "get_paddle_engine (ext_of [] []) \<lparr>languages = [''eng'']\<rparr> empty_world
     = (Inr engine_en, world_en)"
  by (simp add: get_paddle_engine_def create_paddle_engine_def options_lang_examples ext_of_def
        empty_world_def world_en_def engine_en_def n_constructed_def Let_def)

text \<open>
  C4. After \<open>_get_paddle_engine\<close> has returned an engine for a language, the cache holds
  that engine and that language, and the call has run the constructor exactly once when
  the cache did not already hold the language (and not at all when it did). A second call
  whose options select the same language returns the same engine and leaves the whole
  state as it is: no constructor call, no write. A call whose options select another
  language runs the constructor exactly once, and when the constructor returns, the new
  engine, built for the new language, replaces the cached handle.
\<close>

theorem get_paddle_engine_idempotent:
  assumes "get_paddle_engine ext options w = (Inr eng, w1)"
  shows "paddle_engine w1 = Some eng \<and> paddle_lang w1 = Some (options_lang options) \<and>
    n_constructed w1 =
      (if paddle_engine w \<noteq> None \<and> paddle_lang w = Some (options_lang options)
       then n_constructed w else Suc (n_constructed w)) \<and>
    (options_lang options' = options_lang options \<longrightarrow>
       get_paddle_engine ext options' w1 = (Inr eng, w1)) \<and>
    (options_lang options2 \<noteq> options_lang options \<longrightarrow>
       (\<exists>r w2. get_paddle_engine ext options2 w1 = (r, w2) \<and>
          events w2 = events w1 @ [EvConstruct (options_lang options2)] \<and>
          (\<forall>eng2. r = Inr eng2 \<longrightarrow>
             paddle_engine w2 = Some eng2 \<and> paddle_lang w2 = Some (options_lang options2) \<and>
             engine_lang eng2 = options_lang options2 \<and> engine_id eng2 = n_constructed w1)))"
proof -
  let ?l = "options_lang options"
  have cache: "paddle_engine w1 = Some eng \<and> paddle_lang w1 = Some ?l"
    using assms
    by (auto simp: get_paddle_engine_def Let_def
          split: option.splits if_splits prod.splits sum.splits)
  have count: "n_constructed w1 =
      (if paddle_engine w \<noteq> None \<and> paddle_lang w = Some ?l
       then n_constructed w else Suc (n_constructed w))"
  proof (cases "paddle_engine w \<noteq> None \<and> paddle_lang w = Some ?l")
    case True
    with assms have "w1 = w" by (auto simp: get_paddle_engine_def Let_def)
    with True show ?thesis by simp
  next
    case False
    obtain r w' where c: "create_paddle_engine ext ?l w = (r, w')"
      by (cases "create_paddle_engine ext ?l w")
    from False assms c have "events w1 = events w'"
      by (auto simp: get_paddle_engine_def Let_def split: option.splits if_splits sum.splits)
    moreover from c have "events w' = events w @ [EvConstruct ?l]"
      using create_paddle_engine_events [of ext ?l w] by simp
    ultimately show ?thesis using False by (simp add: n_constructed_def)
  qed
  have same: "options_lang options' = ?l \<longrightarrow> get_paddle_engine ext options' w1 = (Inr eng, w1)"
    using cache by (simp add: get_paddle_engine_def Let_def)
  have other: "options_lang options2 \<noteq> ?l \<longrightarrow>
       (\<exists>r w2. get_paddle_engine ext options2 w1 = (r, w2) \<and>
          events w2 = events w1 @ [EvConstruct (options_lang options2)] \<and>
          (\<forall>eng2. r = Inr eng2 \<longrightarrow>
             paddle_engine w2 = Some eng2 \<and> paddle_lang w2 = Some (options_lang options2) \<and>
             engine_lang eng2 = options_lang options2 \<and> engine_id eng2 = n_constructed w1))"
  proof
    assume ne: "options_lang options2 \<noteq> ?l"
    let ?l2 = "options_lang options2"
    obtain r w' where c: "create_paddle_engine ext ?l2 w1 = (r, w')"
      by (cases "create_paddle_engine ext ?l2 w1")
    have ev: "events w' = events w1 @ [EvConstruct ?l2]"
      using create_paddle_engine_events [of ext ?l2 w1] c by simp
    show "\<exists>r w2. get_paddle_engine ext options2 w1 = (r, w2) \<and>
          events w2 = events w1 @ [EvConstruct ?l2] \<and>
          (\<forall>eng2. r = Inr eng2 \<longrightarrow>
             paddle_engine w2 = Some eng2 \<and> paddle_lang w2 = Some ?l2 \<and>
             engine_lang eng2 = ?l2 \<and> engine_id eng2 = n_constructed w1)"
    proof (cases r)
      case (Inl e)
      with c cache ne ev show ?thesis by (simp add: get_paddle_engine_def Let_def)
    next
      case (Inr eng2)
      with c create_paddle_engine_fields [of ext ?l2 w1 eng2 w']
      have "engine_lang eng2 = ?l2 \<and> engine_id eng2 = n_constructed w1" by simp
      with Inr c cache ne ev show ?thesis by (simp add: get_paddle_engine_def Let_def)
    qed
  qed
  from cache count same other show ?thesis by blast
qed

theorem get_paddle_engine_idempotent_witness:
  "get_paddle_engine (ext_of [] []) \<lparr>languages = [''eng'']\<rparr> empty_world
     = (Inr engine_en, world_en) \<and>
   get_paddle_engine (ext_of [] []) \<lparr>languages = []\<rparr> world_en = (Inr engine_en, world_en) \<and>
   n_constructed world_en = 1 \<and>
   events (snd (get_paddle_engine (ext_of [] []) \<lparr>languages = [''kor'', ''eng'']\<rparr> world_en))
     = [EvConstruct ''en'', EvConstruct ''korean''] \<and>
   paddle_lang (snd (get_paddle_engine (ext_of [] []) \<lparr>languages = [''kor'', ''eng'']\<rparr> world_en))
     = Some ''korean''"
  using get_paddle_engine_idempotent
          [OF get_paddle_engine_first, of "\<lparr>languages = []\<rparr>" "\<lparr>languages = [''kor'', ''eng'']\<rparr>"]
        get_paddle_engine_first
  by (auto simp: options_lang_examples world_en_def empty_world_def n_constructed_def ext_of_def
        get_paddle_engine_def create_paddle_engine_def Let_def)

section \<open>The retry policy of generate_ocr\<close>

lemma get_paddle_engine_after_reset:
  "get_paddle_engine ext options (reset_paddle_engine w) =
     (case construct ext (n_constructed w) (options_lang options)
             ((environ w)(''OMP_THREAD_LIMIT'' := None)) of
        Some e \<Rightarrow>
          (Inl e, w\<lparr>paddle_engine := None, paddle_lang := None,
                     environ := (environ w)(''OMP_THREAD_LIMIT'' := None),
                     events := events w @ [EvConstruct (options_lang options)]\<rparr>)
      | None \<Rightarrow>
          (Inr (new_engine (n_constructed w) (options_lang options)),
           w\<lparr>paddle_engine := Some (new_engine (n_constructed w) (options_lang options)),
              paddle_lang := Some (options_lang options),
              events := events w @ [EvConstruct (options_lang options)]\<rparr>))"
  by (cases "environ w ''OMP_THREAD_LIMIT''")
     (auto simp: get_paddle_engine_def reset_paddle_engine_def create_paddle_engine_def
        n_constructed_def Let_def fun_upd_idem split: option.splits)

lemma get_paddle_engine_scripted:
  "get_paddle_engine (ext_of [] ps) \<lparr>languages = [''eng'']\<rparr> empty_world
     = (Inr engine_en, world_en)"
  by (simp add: get_paddle_engine_def create_paddle_engine_def options_lang_examples ext_of_def
        empty_world_def world_en_def engine_en_def n_constructed_def Let_def)

lemma predict_scripted_first:
  "predict (ext_of [] (p # ps)) (n_predicted world_en) engine_en True = p"
  by (simp add: ext_of_def n_predicted_def world_en_def empty_world_def)

lemma generate_ocr_returns_tree:
  assumes "get_paddle_engine ext options w = (Inr eng, w1)"
    and "predict ext (n_predicted w1) eng True = Inr result"
  shows "generate_ocr ext img options pn w =
           (generate_ocr_tree img pn result,
            w1\<lparr>events := events w1 @ [EvPredict (engine_id eng) True]\<rparr>)"
  using assms
  by (simp add: generate_ocr_def generate_ocr_predict_def call_predict_def)

text \<open>
  C2. \<open>generate_ocr\<close> has acquired the engine and the first \<open>predict\<close> call, with word
  boxes, raises a runtime fault. Then the code logs, drops the cached engine and calls the
  constructor again for the same language (which only a dropped cache makes it do). When
  the constructor returns, the new engine is cached and \<open>predict\<close> is called on it once
  more, with word boxes, and that is the last call: the trace ends with it, and when it
  raises, its exception is the outcome of \<open>generate_ocr\<close>; when it returns, the page is
  assembled from its result. When the constructor raises, that exception is the outcome.
\<close>

theorem generate_ocr_runtime_fault_retries_once:
  assumes acq: "get_paddle_engine ext options w = (Inr eng, w1)"
    and first: "predict ext (n_predicted w1) eng True = Inl RuntimeError"
  shows "\<exists>r w'. generate_ocr ext img options pn w = (r, w') \<and>
    (case construct ext (n_constructed w1) (options_lang options)
            ((environ w1)(''OMP_THREAD_LIMIT'' := None)) of
       Some e \<Rightarrow>
         r = Inl e \<and> paddle_engine w' = None \<and>
         events w' = events w1 @ [EvPredict (engine_id eng) True, EvLogDebug,
                                  EvConstruct (options_lang options)]
     | None \<Rightarrow>
         paddle_engine w' = Some (new_engine (n_constructed w1) (options_lang options)) \<and>
         paddle_lang w' = Some (options_lang options) \<and>
         events w' = events w1 @ [EvPredict (engine_id eng) True, EvLogDebug,
                                  EvConstruct (options_lang options),
                                  EvPredict (n_constructed w1) True] \<and>
         r = (case predict ext (Suc (n_predicted w1))
                     (new_engine (n_constructed w1) (options_lang options)) True of
                Inl e \<Rightarrow> Inl e
              | Inr result \<Rightarrow> generate_ocr_tree img pn result))"
proof -
  let ?w2 = "w1\<lparr>events := events w1 @ [EvPredict (engine_id eng) True, EvLogDebug]\<rparr>"
  have n: "n_constructed ?w2 = n_constructed w1" "n_predicted ?w2 = Suc (n_predicted w1)"
    by (simp_all add: n_constructed_def n_predicted_def)
  have r: "reset_paddle_engine
             (w1\<lparr>events := events w1 @ [EvPredict (engine_id eng) True]\<rparr>
                \<lparr>events := events (w1\<lparr>events := events w1 @ [EvPredict (engine_id eng) True]\<rparr>)
                             @ [EvLogDebug]\<rparr>)
           = reset_paddle_engine ?w2"
    by simp
  show ?thesis
    using acq first n
    by (auto simp: generate_ocr_def generate_ocr_predict_def call_predict_def Let_def r
          get_paddle_engine_after_reset new_engine_def n_predicted_def n_constructed_def
          split: option.splits sum.splits)
qed

theorem generate_ocr_runtime_fault_retries_once_witness:
  "fst (generate_ocr (ext_of [] [Inl RuntimeError, Inl RuntimeError]) blank_image
          \<lparr>languages = [''eng'']\<rparr> 0 empty_world) = Inl RuntimeError \<and>
   events (snd (generate_ocr (ext_of [] [Inl RuntimeError, Inl RuntimeError]) blank_image
          \<lparr>languages = [''eng'']\<rparr> 0 empty_world))
     = [EvConstruct ''en'', EvPredict 0 True, EvLogDebug, EvConstruct ''en'', EvPredict 1 True] \<and>
   fst (generate_ocr (ext_of [] [Inl RuntimeError, Inr []]) blank_image
          \<lparr>languages = [''eng'']\<rparr> 0 empty_world) = Inr (page_element blank_image 0 [], [])"
  using generate_ocr_runtime_fault_retries_once
          [OF get_paddle_engine_scripted predict_scripted_first, of "[Inl RuntimeError]" blank_image 0]
        generate_ocr_runtime_fault_retries_once
          [OF get_paddle_engine_scripted predict_scripted_first, of "[Inr []]" blank_image 0]
  by (simp add: generate_ocr_def generate_ocr_predict_def call_predict_def
        get_paddle_engine_def create_paddle_engine_def reset_paddle_engine_def
        options_lang_examples ext_of_def empty_world_def world_en_def engine_en_def
        new_engine_def n_constructed_def n_predicted_def generate_ocr_tree_def Let_def)

text \<open>
  C3, as amended. \<open>generate_ocr\<close> has acquired the engine and the first \<open>predict\<close>
  call, with word boxes, raises a data-shape fault (KeyError). Then \<open>predict\<close> is called
  exactly once more, on the same engine and without word boxes; the cache, the environment
  and the rest of the state are untouched (no constructor call, no invalidation), and the
  fault of the first call is absorbed: the outcome of \<open>generate_ocr\<close> is that of the
  retry, the page assembled from its result when it returns, and its exception, of
  whatever kind, when it raises.
\<close>

theorem generate_ocr_data_shape_fault_retries_without_word_boxes:
  assumes acq: "get_paddle_engine ext options w = (Inr eng, w1)"
    and first: "predict ext (n_predicted w1) eng True = Inl KeyError"
  shows "\<exists>r w'. generate_ocr ext img options pn w = (r, w') \<and>
    w' = w1\<lparr>events := events w1 @ [EvPredict (engine_id eng) True,
                                     EvPredict (engine_id eng) False]\<rparr> \<and>
    r = (case predict ext (Suc (n_predicted w1)) eng False of
           Inl e \<Rightarrow> Inl e
         | Inr result \<Rightarrow> generate_ocr_tree img pn result)"
  using acq first
  by (auto simp: generate_ocr_def generate_ocr_predict_def call_predict_def Let_def
        n_predicted_def split: sum.splits)

theorem generate_ocr_data_shape_fault_retries_without_word_boxes_witness:
  "generate_ocr (ext_of [] [Inl KeyError, Inr []]) blank_image \<lparr>languages = [''eng'']\<rparr> 0
     empty_world
     = (Inr (page_element blank_image 0 [], []),
        world_en\<lparr>events := [EvConstruct ''en'', EvPredict 0 True, EvPredict 0 False]\<rparr>)"
  using generate_ocr_data_shape_fault_retries_without_word_boxes
          [OF get_paddle_engine_scripted predict_scripted_first, of "[Inr []]" blank_image 0]
  by (simp add: generate_ocr_def generate_ocr_predict_def call_predict_def
        get_paddle_engine_def create_paddle_engine_def
        options_lang_examples ext_of_def empty_world_def world_en_def engine_en_def
        new_engine_def n_constructed_def n_predicted_def generate_ocr_tree_def Let_def)

text \<open>
  The claim C3 as stated says a data-shape fault is never surfaced. With a library whose
  \<open>predict\<close> raises KeyError on the first call, with word boxes, and again on the retry
  without them, \<open>generate_ocr\<close> raises KeyError.
\<close>

theorem generate_ocr_data_shape_fault_surfaces:
  "predict (ext_of [] [Inl KeyError, Inl KeyError]) 0 engine_en True = Inl KeyError \<and>
   predict (ext_of [] [Inl KeyError, Inl KeyError]) 1 engine_en False = Inl KeyError \<and>
   fst (generate_ocr (ext_of [] [Inl KeyError, Inl KeyError]) blank_image
          \<lparr>languages = [''eng'']\<rparr> 0 empty_world) = Inl KeyError"
  by (simp add: generate_ocr_def generate_ocr_predict_def call_predict_def
        get_paddle_engine_def create_paddle_engine_def options_lang_examples ext_of_def
        empty_world_def n_constructed_def n_predicted_def Let_def)

section \<open>Page assembly\<close>

lemma generate_ocr_words_eq:
  "generate_ocr_words score tqs acc =
     acc @ map (\<lambda>(tok, q). word_element (the (quad_to_bbox q)) (strip tok) score)
             (filter (\<lambda>(tok, q). strip tok \<noteq> [] \<and> quad_to_bbox q \<noteq> None) tqs)"
  by (induction tqs arbitrary: acc) (auto simp: Let_def split: option.splits)

lemma generate_ocr_line_cases:
  "generate_ocr_line hwb tw twr i (txt, score, b) =
     (case generate_ocr_children hwb tw twr i (box_bbox b) txt score of
        Inl e \<Rightarrow> if strip txt \<noteq> [] \<and> fst b < fst (snd (snd b)) \<and> fst (snd b) < snd (snd (snd b))
                 then Inl e else Inr None
      | Inr ws \<Rightarrow> if line_attached hwb tw twr (i, txt, score, b)
                  then Inr (Some (line_element hwb tw twr (i, txt, score, b))) else Inr None)"
  by (cases b) (auto simp: generate_ocr_line_def Let_def split: sum.splits)

lemma generate_ocr_line_None:
  "generate_ocr_line hwb tw twr i row = Inr None \<Longrightarrow> \<not> line_attached hwb tw twr (i, row)"
  by (cases row) (auto simp: generate_ocr_line_cases split: sum.splits if_splits)

lemma generate_ocr_line_Some:
  "generate_ocr_line hwb tw twr i row = Inr (Some l) \<Longrightarrow>
     line_attached hwb tw twr (i, row) \<and> l = line_element hwb tw twr (i, row)"
  by (cases row) (auto simp: generate_ocr_line_cases split: sum.splits if_splits)

lemma enumerate_Cons: "List.enumerate i (x # xs) = (i, x) # List.enumerate (Suc i) xs"
  by simp

lemma generate_ocr_lines_eq:
  "generate_ocr_lines hwb tw twr i rows pc tp = Inr (pc', tp') \<Longrightarrow>
     pc' = pc @ map (line_element hwb tw twr)
                  (filter (line_attached hwb tw twr) (List.enumerate i rows)) \<and>
     tp' = tp @ map (\<lambda>(j, txt, score, b). txt)
                  (filter (line_attached hwb tw twr) (List.enumerate i rows))"
proof (induction rows arbitrary: i pc tp)
  case Nil
  then show ?case by simp
next
  case (Cons row rows)
  show ?case
  proof (cases "generate_ocr_line hwb tw twr i row")
    case (Inl e)
    with Cons.prems show ?thesis by simp
  next
    case (Inr lo)
    show ?thesis
    proof (cases lo)
      case None
      with Inr Cons.prems
      have "generate_ocr_lines hwb tw twr (Suc i) rows pc tp = Inr (pc', tp')" by simp
      from Cons.IH [OF this] generate_ocr_line_None [of hwb tw twr i row] Inr None
      show ?thesis by simp
    next
      case (Some l)
      with Inr Cons.prems
      have "generate_ocr_lines hwb tw twr (Suc i) rows (pc @ [l]) (tp @ [fst row]) = Inr (pc', tp')"
        by simp
      from Cons.IH [OF this] generate_ocr_line_Some [of hwb tw twr i row l] Inr Some
      show ?thesis by (cases row) simp
    qed
  qed
qed


lemma dict_empty_rows: "dict_empty d \<Longrightarrow> result_rows d = []"
  by (simp add: dict_empty_def result_rows_def get_or_empty_def)

lemma no_texts_rows: "get_or_empty (rec_texts d) = [] \<Longrightarrow> result_rows d = []"
  by (simp add: result_rows_def)

lemma generate_ocr_tree_lines:
  assumes "generate_ocr_tree img pn (d # ds) = Inr (page, txt)"
  shows "page = page_element img pn
            (map (line_element (result_has_word_boxes d) (get_or_empty (text_word d))
                    (get_or_empty (text_word_region d)))
               (result_attached d)) \<and>
         txt = str_join [CHR 0x0A] (map (\<lambda>(i, t, s, b). t) (result_attached d))"
proof (cases "dict_empty d \<or> get_or_empty (rec_texts d) = []")
  case True
  then have "result_rows d = []" using dict_empty_rows no_texts_rows by blast
  with True assms show ?thesis
    by (auto simp: generate_ocr_tree_def result_attached_def Let_def split: if_splits)
next
  case False
  let ?hwb = "result_has_word_boxes d"
  let ?tw = "get_or_empty (text_word d)"
  let ?twr = "get_or_empty (text_word_region d)"
  let ?rows = "zip (get_or_empty (rec_texts d))
                 (zip (get_or_empty (rec_scores d)) (get_or_empty (rec_boxes d)))"
  from False assms obtain pc tp where
    loop: "generate_ocr_lines ?hwb ?tw ?twr 0 ?rows [] [] = Inr (pc, tp)" and
    res: "page = page_element img pn pc" "txt = str_join [CHR 0x0A] tp"
    by (auto simp: generate_ocr_tree_def result_has_word_boxes_def Let_def
          split: sum.splits if_splits)
  from generate_ocr_lines_eq [OF loop] res show ?thesis
    by (simp add: result_attached_def result_rows_def)
qed

lemma strip_examples:
  "strip ''Hello World'' = ''Hello World''" "strip ''   '' = []" "strip ''Bye'' = ''Bye''"
  "strip ''flat'' = ''flat''" "strip '' Hello'' = ''Hello''" "strip ''World '' = ''World''"
  "strip [] = []" "strip '' '' = []"
  by (simp_all add: strip_def is_space_def)

lemma quad_examples:
  "quad_to_bbox hello_quad = Some \<lparr>left = 10, top_f = 10, right = 90, bottom = 40\<rparr>"
  "quad_to_bbox space_quad = Some \<lparr>left = 90, top_f = 10, right = 100, bottom = 40\<rparr>"
  "quad_to_bbox world_quad = Some \<lparr>left = 100, top_f = 10, right = 200, bottom = 40\<rparr>"
  by (simp_all add: quad_to_bbox_def hello_quad_def space_quad_def world_quad_def)

lemma words_result_tree:
  "generate_ocr_tree blank_image 0 [words_result] =
     Inr (words_page, ''Hello World'' @ [CHR 0x0A] @ ''Bye'')"
  by (simp add: generate_ocr_tree_def words_result_def words_page_def dict_empty_def
        get_or_empty_def generate_ocr_line_def generate_ocr_children_def strip_examples
        quad_examples Let_def)

text \<open>
  C5. For an engine result with a first element, when \<open>generate_ocr\<close> returns a
  page and a text: the children of the page are the LINE elements of exactly the rows
  that satisfy \<open>line_attached\<close> (non-blank text, non-degenerate box, at least one WORD
  child), in the order of the rows, and the text is the texts of exactly these rows, in
  that order, joined with newlines.
\<close>

theorem generate_ocr_attaches_exactly_valid_lines:
  assumes "generate_ocr_tree img pn (d # ds) = Inr (page, txt)"
  shows "ocr_class page = PAGE \<and>
         children page =
           map (line_element (result_has_word_boxes d) (get_or_empty (text_word d))
                  (get_or_empty (text_word_region d)))
             (result_attached d) \<and>
         txt = str_join [CHR 0x0A] (map (\<lambda>(i, t, s, b). t) (result_attached d))"
  using generate_ocr_tree_lines [OF assms] by (simp add: page_element_def)

lemma hello_result_tree:
  "generate_ocr_tree blank_image 0 [hello_result] =
     Inr (hello_page, ''Hello World'' @ [CHR 0x0A] @ ''Bye'')"
  by (simp add: generate_ocr_tree_def hello_result_def hello_page_def dict_empty_def
        get_or_empty_def generate_ocr_line_def generate_ocr_children_def strip_examples Let_def)

theorem generate_ocr_attaches_exactly_valid_lines_witness:
  "generate_ocr_tree blank_image 0 [hello_result] =
     Inr (hello_page, ''Hello World'' @ [CHR 0x0A] @ ''Bye'') \<and>
   map fst (result_attached hello_result) = [0, 2] \<and>
   length (children hello_page) = 2"
  using generate_ocr_attaches_exactly_valid_lines [OF hello_result_tree] hello_result_tree
  by (simp add: result_attached_def result_rows_def result_has_word_boxes_def hello_result_def
        get_or_empty_def generate_ocr_children_def strip_examples hello_page_def page_element_def)

lemma generate_ocr_children_Inr:
  assumes "generate_ocr_children hwb tw twr i lb t s = Inr ws"
  shows "(\<forall>w \<in> set ws. ocr_class w = WORD \<and> confidence w = Some s) \<and>
         (if hwb \<and> i < length tw \<and> tw ! i \<noteq> []
          then ws = map (\<lambda>(tok, q). word_element (the (quad_to_bbox q)) (strip tok) s)
                      (filter (\<lambda>(tok, q). strip tok \<noteq> [] \<and> quad_to_bbox q \<noteq> None)
                         (zip (tw ! i) (twr ! i)))
          else ws = [word_element lb t s])"
proof (cases "hwb \<and> i < length tw \<and> tw ! i \<noteq> []")
  case True
  with assms have "ws = generate_ocr_words s (zip (tw ! i) (twr ! i)) []"
    by (simp add: generate_ocr_children_def split: if_splits)
  then have eq: "ws = map (\<lambda>(tok, q). word_element (the (quad_to_bbox q)) (strip tok) s)
                      (filter (\<lambda>(tok, q). strip tok \<noteq> [] \<and> quad_to_bbox q \<noteq> None)
                         (zip (tw ! i) (twr ! i)))"
    by (simp add: generate_ocr_words_eq)
  have "\<forall>w \<in> set ws. ocr_class w = WORD \<and> confidence w = Some s"
    unfolding eq by (auto simp: word_element_def)
  with eq True show ?thesis by simp
next
  case False
  with assms have "ws = [word_element lb t s]"
    by (auto simp: generate_ocr_children_def)
  with False show ?thesis by (simp add: word_element_def)
qed

lemma result_attached_line:
  assumes "generate_ocr_tree img pn (d # ds) = Inr (page, txt)" and "line \<in> set (children page)"
  shows "\<exists>i t s b ws. (i, t, s, b) \<in> set (result_rows d) \<and>
           generate_ocr_children (result_has_word_boxes d) (get_or_empty (text_word d))
             (get_or_empty (text_word_region d)) i (box_bbox b) t s = Inr ws \<and> ws \<noteq> [] \<and>
           line = OcrElement LINE (box_bbox b) None None None None ws"
proof -
  let ?hwb = "result_has_word_boxes d"
  let ?tw = "get_or_empty (text_word d)"
  let ?twr = "get_or_empty (text_word_region d)"
  from generate_ocr_tree_lines [OF assms(1)]
  have "children page = map (line_element ?hwb ?tw ?twr) (result_attached d)"
    by (simp add: page_element_def)
  with assms(2) obtain row where row: "row \<in> set (result_rows d)"
      "line_attached ?hwb ?tw ?twr row" "line = line_element ?hwb ?tw ?twr row"
    by (auto simp: result_attached_def)
  obtain i t s x1 y1 x2 y2 where r: "row = (i, t, s, (x1, y1, x2, y2))"
    by (metis prod_cases4 prod_cases3)
  from row(2) r obtain ws where
    ws: "generate_ocr_children ?hwb ?tw ?twr i (box_bbox (x1, y1, x2, y2)) t s = Inr ws" "ws \<noteq> []"
    by (auto split: sum.splits)
  from row(3) r ws have "line = OcrElement LINE (box_bbox (x1, y1, x2, y2)) None None None None ws"
    by simp
  with row(1) r ws show ?thesis by blast
qed

text \<open>
  C8. For every LINE that \<open>generate_ocr\<close> attaches to the page there is a row
  \<open>(i, t, s, b)\<close> of the result, of text \<open>t\<close>, score \<open>s\<close> and box \<open>b\<close>, such
  that the line has the box \<open>b\<close>, every child is a WORD with confidence \<open>s\<close>, and:
  when word-level detail is present and the token list of line \<open>i\<close> is not empty, the
  children are one WORD per pair of token and quad with a non-blank trimmed token and a
  non-degenerate quad, with the trimmed token as text and the box of the quad; otherwise
  there is exactly one child, with the box \<open>b\<close> and the text \<open>t\<close>.
\<close>

theorem generate_ocr_words_inherit_line_score:
  assumes "generate_ocr_tree img pn (d # ds) = Inr (page, txt)" and "line \<in> set (children page)"
  shows "\<exists>i t s b. (i, t, s, b) \<in> set (result_rows d) \<and>
     ocr_class line = LINE \<and> bbox line = box_bbox b \<and> children line \<noteq> [] \<and>
     (\<forall>w \<in> set (children line). ocr_class w = WORD \<and> confidence w = Some s) \<and>
     (if result_has_word_boxes d \<and> i < length (get_or_empty (text_word d)) \<and>
         get_or_empty (text_word d) ! i \<noteq> []
      then children line =
             map (\<lambda>(tok, q). word_element (the (quad_to_bbox q)) (strip tok) s)
               (filter (\<lambda>(tok, q). strip tok \<noteq> [] \<and> quad_to_bbox q \<noteq> None)
                  (zip (get_or_empty (text_word d) ! i) (get_or_empty (text_word_region d) ! i)))
      else children line = [word_element (box_bbox b) t s])"
proof -
  from result_attached_line [OF assms] obtain i t s b ws where
    row: "(i, t, s, b) \<in> set (result_rows d)" and
    ws: "generate_ocr_children (result_has_word_boxes d) (get_or_empty (text_word d))
           (get_or_empty (text_word_region d)) i (box_bbox b) t s = Inr ws" "ws \<noteq> []" and
    line: "line = OcrElement LINE (box_bbox b) None None None None ws"
    by blast
  from generate_ocr_children_Inr [OF ws(1)] row ws(2) line show ?thesis
    by (intro exI [of _ i] exI [of _ t] exI [of _ s] exI [of _ b]) simp
qed

theorem generate_ocr_words_inherit_line_score_witness:
  "generate_ocr_tree blank_image 0 [words_result] =
     Inr (words_page, ''Hello World'' @ [CHR 0x0A] @ ''Bye'') \<and>
   map (\<lambda>l. map confidence (children l)) (children words_page)
     = [[Some (9 / 10), Some (9 / 10)], [Some (4 / 5)]] \<and>
   map (\<lambda>l. map text_f (children l)) (children words_page)
     = [[Some ''Hello'', Some ''World''], [Some ''Bye'']]"
  using generate_ocr_words_inherit_line_score [OF words_result_tree, of "hd (children words_page)"]
        generate_ocr_words_inherit_line_score [OF words_result_tree, of "last (children words_page)"]
        words_result_tree
  by (simp add: words_page_def page_element_def word_element_def)

lemma zip_by_index:
  "zip xs ys = map (\<lambda>k. (xs ! k, ys ! k)) [0..<min (length xs) (length ys)]"
  by (rule nth_equalityI) simp_all

lemma generate_ocr_lines_total:
  assumes "\<And>j row e. generate_ocr_line hwb tw twr j row \<noteq> Inl e"
  shows "\<exists>pc' tp'. generate_ocr_lines hwb tw twr i rows pc tp = Inr (pc', tp')"
proof (induction rows arbitrary: i pc tp)
  case Nil
  show ?case by simp
next
  case (Cons row rows)
  show ?case
  proof (cases "generate_ocr_line hwb tw twr i row")
    case (Inl e)
    with assms show ?thesis by blast
  next
    case (Inr lo)
    with Cons.IH show ?thesis by (cases lo) simp_all
  qed
qed

lemma generate_ocr_children_total:
  assumes "length tw \<le> length twr"
  shows "generate_ocr_children hwb tw twr i lb t s \<noteq> Inl e"
  using assms by (simp add: generate_ocr_children_def)

lemma generate_ocr_line_total:
  assumes "length tw \<le> length twr"
  shows "generate_ocr_line hwb tw twr i row \<noteq> Inl e"
  using generate_ocr_children_total [OF assms]
  by (cases row) (auto simp: generate_ocr_line_def Let_def split: sum.splits)

text \<open>
  C10, as amended. When the region array \<open>text_word_region\<close> has at least as many
  entries as the token array \<open>text_word\<close>, \<open>generate_ocr\<close> returns a page and a
  text for the result: no read of \<open>text_word_regions[i]\<close> is out of range. Within a
  line, the \<open>k\<close>-th token is paired with the \<open>k\<close>-th quad, for \<open>k\<close> below the
  shorter of the two lengths, and the entries beyond are dropped.
\<close>

theorem generate_ocr_word_regions_in_bounds:
  assumes "length (get_or_empty (text_word d)) \<le> length (get_or_empty (text_word_region d))"
  shows "(\<exists>page txt. generate_ocr_tree img pn (d # ds) = Inr (page, txt)) \<and>
    (\<forall>i lb t s. i < length (get_or_empty (text_word d)) \<and> get_or_empty (text_word d) ! i \<noteq> [] \<longrightarrow>
       generate_ocr_children True (get_or_empty (text_word d)) (get_or_empty (text_word_region d))
         i lb t s =
       Inr (generate_ocr_words s
              (map (\<lambda>k. (get_or_empty (text_word d) ! i ! k, get_or_empty (text_word_region d) ! i ! k))
                 [0..<min (length (get_or_empty (text_word d) ! i))
                          (length (get_or_empty (text_word_region d) ! i))]) []))"
proof -
  let ?tw = "get_or_empty (text_word d)"
  let ?twr = "get_or_empty (text_word_region d)"
  have "\<exists>pc' tp'. generate_ocr_lines hwb ?tw ?twr 0 rows [] [] = Inr (pc', tp')" for hwb rows
    using generate_ocr_lines_total [of hwb ?tw ?twr 0 rows "[]" "[]"]
      generate_ocr_line_total [OF assms] by blast
  then obtain pc tp where
    "generate_ocr_lines (?tw \<noteq> [] \<and> ?twr \<noteq> []) ?tw ?twr 0
       (zip (get_or_empty (rec_texts d))
          (zip (get_or_empty (rec_scores d)) (get_or_empty (rec_boxes d)))) [] [] = Inr (pc, tp)"
    by blast
  then have ret: "\<exists>page txt. generate_ocr_tree img pn (d # ds) = Inr (page, txt)"
    by (simp add: generate_ocr_tree_def Let_def)
  have pair: "generate_ocr_children True ?tw ?twr i lb t s =
       Inr (generate_ocr_words s
              (map (\<lambda>k. (?tw ! i ! k, ?twr ! i ! k))
                 [0..<min (length (?tw ! i)) (length (?twr ! i))]) [])"
    if "i < length ?tw" "?tw ! i \<noteq> []" for i lb t s
  proof -
    from that assms have "generate_ocr_children True ?tw ?twr i lb t s =
        Inr (generate_ocr_words s (zip (?tw ! i) (?twr ! i)) [])"
      by (simp add: generate_ocr_children_def)
    then show ?thesis by (simp only: zip_by_index [of "?tw ! i" "?twr ! i", symmetric])
  qed
  from ret pair show ?thesis by blast
qed


theorem generate_ocr_word_regions_in_bounds_witness:
  "length (get_or_empty (text_word words_result))
     \<le> length (get_or_empty (text_word_region words_result)) \<and>
   generate_ocr_tree blank_image 0 [words_result] =
     Inr (words_page, ''Hello World'' @ [CHR 0x0A] @ ''Bye'')"
  using generate_ocr_word_regions_in_bounds [of words_result blank_image 0 "[]"] words_result_tree
  by (simp add: words_result_def get_or_empty_def)

text \<open>
  The claim C10 as stated, for every result with both arrays non-empty: with tokens for
  two lines and quads for the first only, the read of \<open>text_word_regions[1]\<close> raises
  IndexError.
\<close>

theorem generate_ocr_word_regions_index_error:
  "get_or_empty (text_word mismatch_result) \<noteq> [] \<and>
   get_or_empty (text_word_region mismatch_result) \<noteq> [] \<and>
   generate_ocr_tree blank_image 0 [mismatch_result] = Inl IndexError"
  by (simp add: generate_ocr_tree_def mismatch_result_def dict_empty_def
        get_or_empty_def generate_ocr_line_def generate_ocr_children_def strip_examples
        quad_examples strip_def is_space_def Let_def)

section \<open>Skew\<close>

lemma get_deskew_angles_eq:
  "get_deskew_angles polys acc = acc @ map edge_angle (filter edge_qualifies polys)"
proof (induction polys arbitrary: acc)
  case Nil
  show ?case by simp
next
  case (Cons p ps)
  show ?case
  proof (cases p)
    case Nil
    with Cons show ?thesis by simp
  next
    case (Cons p0 rest)
    note outer = this
    show ?thesis
    proof (cases rest)
      case Nil
      with outer Cons.IH show ?thesis by simp
    next
      case (Cons p1 more)
      with outer Cons.IH show ?thesis by (simp add: Let_def not_less)
    qed
  qed
qed

lemma length_filter_sort:
  "length (filter P (sort xs)) = length (filter P xs)"
  by (simp add: filter_sort)

lemma count_le_sorted:
  assumes "sorted s" and "k < length s" and "s ! k \<le> (m::real)"
  shows "Suc k \<le> length (filter (\<lambda>a. a \<le> m) s)"
proof -
  have all: "\<forall>a \<in> set (take (Suc k) s). a \<le> m"
  proof
    fix a assume "a \<in> set (take (Suc k) s)"
    then obtain j where j: "j < Suc k" "a = s ! j"
      using assms(2) by (auto simp: in_set_conv_nth)
    with assms(1,2) have "s ! j \<le> s ! k" by (intro sorted_nth_mono) simp_all
    with j assms(3) show "a \<le> m" by simp
  qed
  have "length (filter (\<lambda>a. a \<le> m) s) =
        length (filter (\<lambda>a. a \<le> m) (take (Suc k) s)) + length (filter (\<lambda>a. a \<le> m) (drop (Suc k) s))"
    by (metis append_take_drop_id filter_append length_append)
  moreover from all have "filter (\<lambda>a. a \<le> m) (take (Suc k) s) = take (Suc k) s"
    by (simp add: filter_id_conv)
  ultimately show ?thesis using assms(2) by simp
qed

lemma count_ge_sorted:
  assumes "sorted s" and "k < length s" and "(m::real) \<le> s ! k"
  shows "length s - k \<le> length (filter (\<lambda>a. m \<le> a) s)"
proof -
  have all: "\<forall>a \<in> set (drop k s). m \<le> a"
  proof
    fix a assume "a \<in> set (drop k s)"
    then obtain j where j: "j < length s - k" "a = s ! (k + j)"
      by (auto simp: in_set_conv_nth)
    with assms(1,2) have "s ! k \<le> s ! (k + j)" by (intro sorted_nth_mono) simp_all
    with j assms(3) show "m \<le> a" by simp
  qed
  have "length (filter (\<lambda>a. m \<le> a) s) =
        length (filter (\<lambda>a. m \<le> a) (take k s)) + length (filter (\<lambda>a. m \<le> a) (drop k s))"
    by (metis append_take_drop_id filter_append length_append)
  moreover from all have "filter (\<lambda>a. m \<le> a) (drop k s) = drop k s"
    by (simp add: filter_id_conv)
  ultimately show ?thesis by simp
qed

lemma even_half_bounds:
  "0 < (n::nat) \<Longrightarrow> even n \<Longrightarrow> n div 2 - 1 < n \<and> 0 < n div 2 \<and> 2 * (n div 2) = n"
  by presburger

lemma median_splits:
  assumes "xs \<noteq> []"
  shows "length xs \<le> 2 * length (filter (\<lambda>a. a \<le> median xs) xs) \<and>
         length xs \<le> 2 * length (filter (\<lambda>a. median xs \<le> a) xs)"
proof -
  let ?s = "sort xs"
  let ?n = "length xs"
  let ?k = "?n div 2"
  have s: "sorted ?s" "length ?s = ?n" by simp_all
  have n: "0 < ?n" using assms by simp
  have k: "?k < length ?s" using n by simp
  have le: "length (filter (\<lambda>a. a \<le> median xs) xs) = length (filter (\<lambda>a. a \<le> median xs) ?s)"
    by (simp add: length_filter_sort)
  have ge: "length (filter (\<lambda>a. median xs \<le> a) xs) = length (filter (\<lambda>a. median xs \<le> a) ?s)"
    by (simp add: length_filter_sort)
  show ?thesis
  proof (cases "even ?n")
    case False
    then have m: "median xs = ?s ! ?k" by (simp add: median_def)
    from count_le_sorted [OF s(1) k, of "median xs"] m
    have "Suc ?k \<le> length (filter (\<lambda>a. a \<le> median xs) ?s)" by simp
    moreover from count_ge_sorted [OF s(1) k, of "median xs"] m
    have "?n - ?k \<le> length (filter (\<lambda>a. median xs \<le> a) ?s)" by simp
    ultimately show ?thesis using le ge by linarith
  next
    case True
    with n have "?n div 2 - 1 < ?n \<and> 0 < ?n div 2 \<and> 2 * (?n div 2) = ?n"
      by (intro even_half_bounds)
    then have k1: "?k - 1 < length ?s" "0 < ?k" "2 * ?k = ?n" by simp_all
    from True have m: "median xs = (?s ! (?k - 1) + ?s ! ?k) / 2" by (simp add: median_def)
    have "?s ! (?k - 1) \<le> ?s ! ?k" using s(1) k by (intro sorted_nth_mono) simp_all
    with m have b: "?s ! (?k - 1) \<le> median xs" "median xs \<le> ?s ! ?k" by simp_all
    from count_le_sorted [OF s(1) k1(1) b(1)] k1(2)
    have "?k \<le> length (filter (\<lambda>a. a \<le> median xs) ?s)" by simp
    moreover from count_ge_sorted [OF s(1) k b(2)]
    have "?n - ?k \<le> length (filter (\<lambda>a. median xs \<le> a) ?s)" by simp
    ultimately show ?thesis using le ge k1(3) by linarith
  qed
qed

lemma get_deskew_angle_eq:
  "get_deskew_angle (r # rs) = (if skew_angles r = [] then 0 else median (skew_angles r))"
proof (cases "dict_empty r")
  case True
  then have "skew_angles r = []" by (simp add: dict_empty_def skew_angles_def get_or_empty_def)
  with True show ?thesis by (simp add: get_deskew_angle_def)
next
  case False
  have a: "get_deskew_angles (get_or_empty (dt_polys r)) [] = skew_angles r"
    by (simp add: get_deskew_angles_eq skew_angles_def)
  show ?thesis
  proof (cases "get_or_empty (dt_polys r) = []")
    case True
    then have "skew_angles r = []" by (simp add: skew_angles_def)
    with True False show ?thesis by (simp add: get_deskew_angle_def)
  next
    case polys: False
    with False a show ?thesis
      by (simp add: get_deskew_angle_def Let_def median_def even_iff_mod_2_eq_zero)
  qed
qed

lemma degrees_atan2_examples:
  "degrees (atan2 0 10) = 0" "degrees (atan2 10 10) = 45" "degrees (atan2 0 40) = 0"
  by (simp_all add: degrees_def atan2_def arctan_one)

lemma skew_angles_example: "skew_angles skew_result = [0, 45, 0, 0]"
  by (simp add: skew_angles_def skew_result_def get_or_empty_def degrees_atan2_examples)

lemma get_deskew_angle_calls:
  "get_paddle_engine ext options w = (Inr eng, w1) \<Longrightarrow>
   predict ext (n_predicted w1) eng False = Inr result \<Longrightarrow>
   get_deskew ext options w =
     (Inr (get_deskew_angle result), w1\<lparr>events := events w1 @ [EvPredict (engine_id eng) False]\<rparr>)"
  by (simp add: get_deskew_def call_predict_def)

text \<open>
  C7. \<open>get_deskew\<close> computes its angle from the result of \<open>predict\<close>
  (\<open>get_deskew_angle_calls\<close>). The angle is 0 when the result is empty, when its first
  element is empty, when the polygon list is empty, and when no edge qualifies. Otherwise
  it is the median of the angles \<open>degrees (atan2 dy dx)\<close> of the edges from vertex 0 to
  vertex 1 of the polygons with at least 2 vertices and \<open>1 \<le> |dx|\<close>: the middle value
  of the sorted angles, or the mean of the two middle values for an even count. At least
  half of the angles are at most the result and at least half are at least the result.
\<close>

theorem get_deskew_angle_median:
  "get_deskew_angle [] = 0 \<and>
   (dict_empty r \<or> get_or_empty (dt_polys r) = [] \<or> skew_angles r = [] \<longrightarrow>
      get_deskew_angle (r # rs) = 0) \<and>
   (skew_angles r \<noteq> [] \<longrightarrow>
      get_deskew_angle (r # rs) = median (skew_angles r) \<and>
      length (skew_angles r)
        \<le> 2 * length (filter (\<lambda>a. a \<le> get_deskew_angle (r # rs)) (skew_angles r)) \<and>
      length (skew_angles r)
        \<le> 2 * length (filter (\<lambda>a. get_deskew_angle (r # rs) \<le> a) (skew_angles r)))"
proof -
  have e: "get_deskew_angle [] = 0" by (simp add: get_deskew_angle_def)
  have z: "dict_empty r \<or> get_or_empty (dt_polys r) = [] \<or> skew_angles r = [] \<longrightarrow>
      get_deskew_angle (r # rs) = 0"
    by (auto simp: get_deskew_angle_eq skew_angles_def dict_empty_def get_or_empty_def)
  have m: "skew_angles r \<noteq> [] \<longrightarrow>
      get_deskew_angle (r # rs) = median (skew_angles r) \<and>
      length (skew_angles r)
        \<le> 2 * length (filter (\<lambda>a. a \<le> get_deskew_angle (r # rs)) (skew_angles r)) \<and>
      length (skew_angles r)
        \<le> 2 * length (filter (\<lambda>a. get_deskew_angle (r # rs) \<le> a) (skew_angles r))"
    using median_splits [of "skew_angles r"] by (simp add: get_deskew_angle_eq)
  from e z m show ?thesis by blast
qed

theorem get_deskew_angle_median_witness:
  "skew_angles skew_result = [0, 45, 0, 0] \<and>
   get_deskew_angle [skew_result] = 0 \<and>
   get_deskew_angle [skew_result\<lparr>dt_polys := Some [[(0, 0), (10, 10)]]\<rparr>] = 45 \<and>
   get_deskew_angle [skew_result\<lparr>dt_polys := Some [[(0, 0), (0, 10)], []]\<rparr>] = 0"
  using get_deskew_angle_median [of skew_result "[]"]
        get_deskew_angle_median [of "skew_result\<lparr>dt_polys := Some [[(0, 0), (10, 10)]]\<rparr>" "[]"]
        get_deskew_angle_median [of "skew_result\<lparr>dt_polys := Some [[(0, 0), (0, 10)], []]\<rparr>" "[]"]
  by (simp add: skew_angles_example median_def skew_angles_def skew_result_def get_or_empty_def
        degrees_atan2_examples dict_empty_def)

end
